theory Spec2Isabelle
  imports Main
begin

section \<open>Data model\<close>

text \<open>
  The rows follow \<^verbatim>\<open>schema.prisma\<close> and the migration that creates the tables
  \<^verbatim>\<open>users\<close>, \<^verbatim>\<open>accounts\<close>, \<^verbatim>\<open>characters\<close> and \<^verbatim>\<open>user_characters\<close>.
  Several Prisma models share field names (\<^verbatim>\<open>id\<close>, \<^verbatim>\<open>userId\<close>), so every field carries
  a suffix naming its model: \<open>_u\<close> for User, \<open>_a\<close> for the auth account, \<open>_c\<close> for
  UserCharacter, \<open>_g\<close> for GoogleUserInfo, \<open>_p\<close> for JWTPayload.
  Columns that none of the modelled operations reads or sets (the timestamps and the
  nullable OAuth token columns of an account, which the registration leaves NULL) are
  left out. Strings are byte lists; a nullable column is an \<open>option\<close>.
\<close>

datatype CharacterCode = TRAECHAN | MASTER

record User =
  id_u :: int
  email_u :: "string option"
  name_u :: "string option"
  avatarUrl_u :: "string option"

record AuthAccount =
  id_a :: int
  userId_a :: int
  provider_a :: string
  providerAccountId_a :: string

record UserCharacter =
  id_c :: int
  userId_c :: int
  characterCode_c :: CharacterCode
  nickName_c :: string
  level_c :: int
  experience_c :: int
  isActive_c :: bool

text \<open>\<^verbatim>\<open>AuthAccountWithUser = AuthAccount & { user: User }\<close>: the result of a lookup with
  \<^verbatim>\<open>include: { user: true }\<close>.\<close>

record AuthAccountWithUser =
  account :: AuthAccount
  user :: User

text \<open>
  The database: the four tables in insertion order, and the three sequences behind the
  \<^verbatim>\<open>SERIAL\<close> (autoincrement) keys. Each sequence holds the next value it hands out.
\<close>

record db =
  users :: "User list"
  accounts :: "AuthAccount list"
  userCharacters :: "UserCharacter list"
  characters :: "CharacterCode list"
  users_id_seq :: int
  accounts_id_seq :: int
  user_characters_id_seq :: int

text \<open>What a failed insert throws: the violated constraint, by its name in the migration.\<close>

datatype db_error = UniqueConstraint string | ForeignKeyConstraint string

section \<open>Inserts and their constraints\<close>

record UserCreateInput =
  avatarUrl_i :: "string option"
  email_i :: "string option"
  name_i :: "string option"

text \<open>
  \<^verbatim>\<open>tx.user.create\<close>: the key comes from the sequence, which advances whether or not the
  insert succeeds. \<^verbatim>\<open>users_pkey\<close> and the unique index \<^verbatim>\<open>users_email_key\<close> are
  checked; a NULL email never collides.
\<close>

definition user_create :: "UserCreateInput \<Rightarrow> db \<Rightarrow> (db_error + User) \<times> db" where
  "user_create d s =
     (let i = users_id_seq s;
          s1 = s\<lparr>users_id_seq := i + 1\<rparr>;
          row = \<lparr>id_u = i, email_u = email_i d, name_u = name_i d, avatarUrl_u = avatarUrl_i d\<rparr>
      in if i \<in> set (map id_u (users s)) then (Inl (UniqueConstraint ''users_pkey''), s1)
         else if email_i d \<noteq> None \<and> email_i d \<in> set (map email_u (users s))
           then (Inl (UniqueConstraint ''users_email_key''), s1)
         else (Inr row, s1\<lparr>users := users s @ [row]\<rparr>))"

record AuthAccountCreateInput =
  provider_i :: string
  providerAccountId_i :: string
  userId_ai :: int

text \<open>
  \<^verbatim>\<open>tx.authAccount.create\<close>: \<^verbatim>\<open>accounts_pkey\<close>, the unique index on
  \<^verbatim>\<open>(provider, provider_account_id)\<close> and the foreign key to \<^verbatim>\<open>users\<close>.
\<close>

definition authAccount_create :: "AuthAccountCreateInput \<Rightarrow> db \<Rightarrow> (db_error + AuthAccount) \<times> db" where
  "authAccount_create d s =
     (let i = accounts_id_seq s;
          s1 = s\<lparr>accounts_id_seq := i + 1\<rparr>;
          row = \<lparr>id_a = i, userId_a = userId_ai d, provider_a = provider_i d,
                 providerAccountId_a = providerAccountId_i d\<rparr>
      in if i \<in> set (map id_a (accounts s)) then (Inl (UniqueConstraint ''accounts_pkey''), s1)
         else if (provider_i d, providerAccountId_i d)
                   \<in> set (map (\<lambda>a. (provider_a a, providerAccountId_a a)) (accounts s))
           then (Inl (UniqueConstraint ''accounts_provider_provider_account_id_key''), s1)
         else if userId_ai d \<notin> set (map id_u (users s))
           then (Inl (ForeignKeyConstraint ''accounts_user_id_fkey''), s1)
         else (Inr row, s1\<lparr>accounts := accounts s @ [row]\<rparr>))"

record UserCharacterCreateInput =
  characterCode_i :: CharacterCode
  isActive_i :: bool
  nickName_i :: string
  userId_ci :: int

text \<open>
  \<^verbatim>\<open>tx.userCharacter.create\<close>: \<^verbatim>\<open>level\<close> and \<^verbatim>\<open>experience\<close> take their column
  defaults 1 and 0; the foreign keys to \<^verbatim>\<open>characters\<close> and to \<^verbatim>\<open>users\<close> are checked.
\<close>

definition userCharacter_create ::
  "UserCharacterCreateInput \<Rightarrow> db \<Rightarrow> (db_error + UserCharacter) \<times> db" where
  "userCharacter_create d s =
     (let i = user_characters_id_seq s;
          s1 = s\<lparr>user_characters_id_seq := i + 1\<rparr>;
          row = \<lparr>id_c = i, userId_c = userId_ci d, characterCode_c = characterCode_i d,
                 nickName_c = nickName_i d, level_c = 1, experience_c = 0,
                 isActive_c = isActive_i d\<rparr>
      in if i \<in> set (map id_c (userCharacters s))
           then (Inl (UniqueConstraint ''user_characters_pkey''), s1)
         else if characterCode_i d \<notin> set (characters s)
           then (Inl (ForeignKeyConstraint ''user_characters_character_code_fkey''), s1)
         else if userId_ci d \<notin> set (map id_u (users s))
           then (Inl (ForeignKeyConstraint ''user_characters_user_id_fkey''), s1)
         else (Inr row, s1\<lparr>userCharacters := userCharacters s @ [row]\<rparr>))"

section \<open>The registration transaction\<close>

text \<open>
  \<^verbatim>\<open>prisma.$transaction(async (tx) => ...)\<close>: the callback runs on the database; when it
  returns, its writes are committed; when it throws, every row it wrote is rolled back
  and the error is thrown on. A sequence is not transactional: the values it handed out
  stay consumed after a rollback.
\<close>

definition rollback :: "db \<Rightarrow> db \<Rightarrow> db" where
  "rollback s s' =
     s\<lparr>users_id_seq := users_id_seq s', accounts_id_seq := accounts_id_seq s',
       user_characters_id_seq := user_characters_id_seq s'\<rparr>"

definition transaction :: "(db \<Rightarrow> (db_error + 'a) \<times> db) \<Rightarrow> db \<Rightarrow> (db_error + 'a) \<times> db" where
  "transaction body s =
     (case body s of
        (Inr v, s') \<Rightarrow> (Inr v, s')
      | (Inl e, s') \<Rightarrow> (Inl e, rollback s s'))"

record AuthAccountInput =
  provider_r :: string
  providerAccountId_r :: string

record UserCharacterInput =
  characterCode_r :: CharacterCode
  isActive_r :: "bool option"
  nickName_r :: string

record CreateUserRegistrationInput =
  authAccount_r :: AuthAccountInput
  user_r :: UserCreateInput
  userCharacter_r :: UserCharacterInput

text \<open>The callback of the transaction: the three inserts, each awaited, the first
  throw ending the callback.\<close>

definition registration_body :: "CreateUserRegistrationInput \<Rightarrow> db \<Rightarrow> (db_error + User) \<times> db" where
  "registration_body d s =
     (case user_create (user_r d) s of
        (Inl e, s1) \<Rightarrow> (Inl e, s1)
      | (Inr u, s1) \<Rightarrow>
          (case authAccount_create
                  \<lparr>provider_i = provider_r (authAccount_r d),
                   providerAccountId_i = providerAccountId_r (authAccount_r d),
                   userId_ai = id_u u\<rparr> s1 of
             (Inl e, s2) \<Rightarrow> (Inl e, s2)
           | (Inr a, s2) \<Rightarrow>
               (case userCharacter_create
                       \<lparr>characterCode_i = characterCode_r (userCharacter_r d),
                        isActive_i = (case isActive_r (userCharacter_r d) of
                                        None \<Rightarrow> False | Some b \<Rightarrow> b),
                        nickName_i = nickName_r (userCharacter_r d),
                        userId_ci = id_u u\<rparr> s2 of
                  (Inl e, s3) \<Rightarrow> (Inl e, s3)
                | (Inr c, s3) \<Rightarrow> (Inr u, s3))))"

text \<open>\<^verbatim>\<open>PrismaUserRegistrationRepository.createUserWithAuthAndCharacter\<close>, which the
  service calls as \<^verbatim>\<open>createUserWithAuthAccountAndUserCharacterTx\<close>.\<close>

definition createUserWithAuthAndCharacter ::
  "CreateUserRegistrationInput \<Rightarrow> db \<Rightarrow> (db_error + User) \<times> db" where
  "createUserWithAuthAndCharacter d s = transaction (registration_body d) s"

text \<open>
  \<^verbatim>\<open>findByProvider\<close>: \<^verbatim>\<open>findUnique\<close> on the compound unique key, with the owning
  user joined in. It reads and never writes. The foreign key makes the joined user
  exist; on a table that breaks it the lookup finds nothing.
\<close>

definition findByProvider_prisma :: "string \<Rightarrow> string \<Rightarrow> db \<Rightarrow> AuthAccountWithUser option" where
  "findByProvider_prisma provider providerAccountId s =
     (case find (\<lambda>a. provider_a a = provider \<and> providerAccountId_a a = providerAccountId)
             (accounts s) of
        None \<Rightarrow> None
      | Some a \<Rightarrow>
          (case find (\<lambda>u. id_u u = userId_a a) (users s) of
             None \<Rightarrow> None
           | Some u \<Rightarrow> Some \<lparr>account = a, user = u\<rparr>))"

section \<open>Session tokens\<close>

text \<open>
  \<^verbatim>\<open>JWTPayload = { exp?: number; iat?: number; userId: number }\<close>; times are whole
  seconds. The type is put on the result of \<^verbatim>\<open>jwt.verify\<close> by the cast
  \<^verbatim>\<open>as JWTPayload\<close>, which checks nothing: at run time the payload holds the claims the
  token carries, and \<^verbatim>\<open>userId\<close> is undefined when the token has none. The field is
  therefore an \<open>option\<close> like the other two.
\<close>

record JWTPayload =
  userId_p :: "int option"
  iat_p :: "int option"
  exp_p :: "int option"

text \<open>
  What \<^verbatim>\<open>jwt.sign\<close> and \<^verbatim>\<open>jwt.verify\<close> throw. \<open>SignError\<close> is the plain error of
  \<^verbatim>\<open>jwt.sign\<close> on options it rejects.
\<close>

datatype jwt_error = JsonWebTokenError string | TokenExpiredError | SignError string

text \<open>
  The \<^verbatim>\<open>jsonwebtoken\<close> package is a dependency whose code is not part of the repository.
  Its primitives are parameters: the compact serialisation of claims and signature
  (\<open>encode\<close>), its parser (\<open>decode\<close>, \<open>None\<close> on a string that is not a token), the
  keyed hash behind the signature (\<open>hmac\<close>), and the reading of an \<^verbatim>\<open>expiresIn\<close>
  string as a number of seconds (\<open>timespan\<close>, \<open>None\<close> on a string it rejects).
\<close>

record jsonwebtoken =
  encode :: "JWTPayload \<Rightarrow> string \<Rightarrow> string"
  decode :: "string \<Rightarrow> (JWTPayload \<times> string) option"
  hmac :: "string \<Rightarrow> JWTPayload \<Rightarrow> string"
  timespan :: "string \<Rightarrow> int option"

text \<open>
  Modelled from the spec: \<^verbatim>\<open>jwt.sign({ userId }, secret, { expiresIn })\<close> of the
  jsonwebtoken package, which is not under the sources. "Encodes {userId, issuedAt = now,
  expiresAt = now + fixed TTL} and signs with a server-held secret."
\<close>

definition jwt_sign :: "jsonwebtoken \<Rightarrow> int \<Rightarrow> string \<Rightarrow> string \<Rightarrow> int \<Rightarrow> jwt_error + string" where
  "jwt_sign lib uid secret expiresIn now =
     (case timespan lib expiresIn of
        None \<Rightarrow> Inl (SignError ''expiresIn should be a number of seconds or a timespan string'')
      | Some d \<Rightarrow>
          (let claims = \<lparr>userId_p = Some uid, iat_p = Some now, exp_p = Some (now + d)\<rparr>
           in Inr (encode lib claims (hmac lib secret claims))))"

text \<open>
  Modelled from the spec: \<^verbatim>\<open>jwt.verify(token, secret)\<close> of the jsonwebtoken package, which
  is not under the sources. "Checks signature validity and now < expiresAt; returns
  TokenInvalid (bad signature/malformed) or TokenExpired (valid signature, past expiry) as
  distinct failure kinds." The signature is checked by recomputing the keyed hash of the
  claims; the expiry is looked at only once the signature has been accepted.
\<close>

definition jwt_verify :: "jsonwebtoken \<Rightarrow> string \<Rightarrow> string \<Rightarrow> int \<Rightarrow> jwt_error + JWTPayload" where
  "jwt_verify lib token secret now =
     (case decode lib token of
        None \<Rightarrow> Inl (JsonWebTokenError ''jwt malformed'')
      | Some (claims, signature) \<Rightarrow>
          if signature \<noteq> hmac lib secret claims then Inl (JsonWebTokenError ''invalid signature'')
          else (case exp_p claims of
                  None \<Rightarrow> Inr claims
                | Some e \<Rightarrow> if e \<le> now then Inl TokenExpiredError else Inr claims))"

subsection \<open>\<^verbatim>\<open>lib/jwt.ts\<close>\<close>

text \<open>
  The process environment. \<^verbatim>\<open>!process.env.X\<close> holds when the variable is unset or
  empty, and \<^verbatim>\<open>process.env.X || d\<close> is \<open>d\<close> in the same two cases.
\<close>

type_synonym env = "string \<Rightarrow> string option"

definition falsy :: "string option \<Rightarrow> bool" where
  "falsy v = (case v of None \<Rightarrow> True | Some x \<Rightarrow> x = [])"

definition or_default :: "string option \<Rightarrow> string \<Rightarrow> string" where
  "or_default v d = (case v of None \<Rightarrow> d | Some x \<Rightarrow> if x = [] then d else x)"

text \<open>The module constants \<^verbatim>\<open>JWT_SECRET\<close> and \<^verbatim>\<open>JWT_EXPIRATION\<close>, read once when the
  module is loaded.\<close>

record jwt_module =
  JWT_SECRET :: string
  JWT_EXPIRATION :: string

definition jwt_module_load :: "env \<Rightarrow> string + jwt_module" where
  "jwt_module_load e =
     (if falsy (e ''JWT_SECRET'') then Inl ''JWT_SECRET environment variable is required''
      else Inr \<lparr>JWT_SECRET = or_default (e ''JWT_SECRET'') [],
                JWT_EXPIRATION = or_default (e ''JWT_EXPIRATION'') ''30d''\<rparr>)"

definition generateToken :: "jsonwebtoken \<Rightarrow> jwt_module \<Rightarrow> int \<Rightarrow> int \<Rightarrow> jwt_error + string" where
  "generateToken lib m now userId = jwt_sign lib userId (JWT_SECRET m) (JWT_EXPIRATION m) now"

text \<open>\<^verbatim>\<open>try { return jwt.verify(token, JWT_SECRET) } catch { return null }\<close>\<close>

definition verifyToken :: "jsonwebtoken \<Rightarrow> jwt_module \<Rightarrow> int \<Rightarrow> string \<Rightarrow> JWTPayload option" where
  "verifyToken lib m now token =
     (case jwt_verify lib token (JWT_SECRET m) now of
        Inl err \<Rightarrow> None
      | Inr payload \<Rightarrow> Some payload)"

section \<open>The session guard (\<^verbatim>\<open>middleware/auth.ts\<close>)\<close>





section \<open>Start-up (\<^verbatim>\<open>index.ts\<close>)\<close>

text \<open>
  \<^verbatim>\<open>dotenv.config\<close> adds the variables of \<^verbatim>\<open>.env.local\<close> that the process environment
  does not have yet.
\<close>

definition dotenv_config :: "env \<Rightarrow> env \<Rightarrow> env" where
  "dotenv_config file penv = (\<lambda>k. case penv k of None \<Rightarrow> file k | Some v \<Rightarrow> Some v)"

record app_config =
  PORT :: string
  FRONTEND_URL :: string
  GOOGLE_CLIENT_ID :: string
  GOOGLE_CLIENT_SECRET :: string
  GOOGLE_CALLBACK_URL :: string
  jwt :: jwt_module

text \<open>
  The entry point. Its imports are evaluated first, and they load \<^verbatim>\<open>lib/jwt.ts\<close>
  (through the controllers and the router), so the module constants are read from the
  process environment before the body calls \<^verbatim>\<open>dotenv.config\<close>. Then come the four
  checks, in the order of the file. The result is the error thrown, or the settings the
  server runs with.
\<close>

definition index_main :: "env \<Rightarrow> env \<Rightarrow> string + app_config" where
  "index_main file penv =
     (case jwt_module_load penv of
        Inl msg \<Rightarrow> Inl msg
      | Inr m \<Rightarrow>
          (let e = dotenv_config file penv
           in if falsy (e ''GOOGLE_CLIENT_ID'')
                then Inl ''GOOGLE_CLIENT_ID environment variable is required''
              else if falsy (e ''GOOGLE_CLIENT_SECRET'')
                then Inl ''GOOGLE_CLIENT_SECRET environment variable is required''
              else if falsy (e ''GOOGLE_CALLBACK_URL'')
                then Inl ''GOOGLE_CALLBACK_URL environment variable is required''
              else if falsy (e ''JWT_SECRET'')
                then Inl ''JWT_SECRET environment variable is required''
              else Inr \<lparr>PORT = or_default (e ''PORT'') ''8080'',
                        FRONTEND_URL = or_default (e ''FRONTEND_URL'') ''http://localhost:3000'',
                        GOOGLE_CLIENT_ID = or_default (e ''GOOGLE_CLIENT_ID'') [],
                        GOOGLE_CLIENT_SECRET = or_default (e ''GOOGLE_CLIENT_SECRET'') [],
                        GOOGLE_CALLBACK_URL = or_default (e ''GOOGLE_CALLBACK_URL'') [],
                        jwt = m\<rparr>))"

section \<open>The authentication service (\<^verbatim>\<open>service/auth-service.ts\<close>)\<close>

record GoogleUserInfo =
  email_g :: string
  id_g :: string
  name_g :: string
  picture_g :: "string option"

text \<open>The two repositories the service receives, as the operations it calls on them.\<close>

record repository =
  findByProvider :: "string \<Rightarrow> string \<Rightarrow> db \<Rightarrow> AuthAccountWithUser option"
  createUserWithAuthAccountAndUserCharacterTx ::
    "CreateUserRegistrationInput \<Rightarrow> db \<Rightarrow> (db_error + User) \<times> db"

definition prisma_repository :: repository where
  "prisma_repository =
     \<lparr>findByProvider = findByProvider_prisma,
      createUserWithAuthAccountAndUserCharacterTx = createUserWithAuthAndCharacter\<rparr>"

record AuthenticateWithGoogleResult =
  isNewUser :: bool
  jwtToken :: string
  user_res :: User

text \<open>What the service lets escape: the error of the Google client, of the database, or
  of the token library, each as it was thrown.\<close>

datatype error = GoogleError string | PrismaError db_error | TokenError jwt_error

text \<open>The nickname of the default character, \<^verbatim>\<open>U+30C8 U+30EC U+3061 U+3083 U+3093\<close>, in
  UTF-8.\<close>

definition default_nickName :: string where
  "default_nickName =
     map char_of [0xE3, 0x83, 0x88, 0xE3, 0x83, 0xAC, 0xE3, 0x81, 0xA1,
                  0xE3, 0x82, 0x83, 0xE3, 0x82, 0x93 :: nat]"

definition registration_input :: "GoogleUserInfo \<Rightarrow> CreateUserRegistrationInput" where
  "registration_input googleUser =
     \<lparr>authAccount_r = \<lparr>provider_r = ''google'', providerAccountId_r = id_g googleUser\<rparr>,
      user_r = \<lparr>avatarUrl_i = picture_g googleUser, email_i = Some (email_g googleUser),
                name_i = Some (name_g googleUser)\<rparr>,
      userCharacter_r = \<lparr>characterCode_r = TRAECHAN, isActive_r = Some True,
                         nickName_r = default_nickName\<rparr>\<rparr>"

text \<open>The tail of the service: issue the token for the user and build the result.\<close>

definition issue_result ::
  "jsonwebtoken \<Rightarrow> jwt_module \<Rightarrow> int \<Rightarrow> bool \<Rightarrow> User \<Rightarrow> error + AuthenticateWithGoogleResult" where
  "issue_result lib m now isNew u =
     (case generateToken lib m now (id_u u) of
        Inl e \<Rightarrow> Inl (TokenError e)
      | Inr t \<Rightarrow> Inr \<lparr>isNewUser = isNew, jwtToken = t, user_res = u\<rparr>)"

definition authenticateWithGoogle ::
  "jsonwebtoken \<Rightarrow> jwt_module \<Rightarrow> int \<Rightarrow> string \<Rightarrow> repository \<Rightarrow> (string \<Rightarrow> string + GoogleUserInfo)
     \<Rightarrow> db \<Rightarrow> (error + AuthenticateWithGoogleResult) \<times> db" where
  "authenticateWithGoogle lib m now code repo getUserInfo s =
     (case getUserInfo code of
        Inl msg \<Rightarrow> (Inl (GoogleError msg), s)
      | Inr googleUser \<Rightarrow>
          (case findByProvider repo ''google'' (id_g googleUser) s of
             Some existingAccount \<Rightarrow> (issue_result lib m now False (user existingAccount), s)
           | None \<Rightarrow>
               (case createUserWithAuthAccountAndUserCharacterTx repo
                       (registration_input googleUser) s of
                  (Inl e, s') \<Rightarrow> (Inl (PrismaError e), s')
                | (Inr u, s') \<Rightarrow> (issue_result lib m now True u, s'))))"

section \<open>Concrete data for the examples\<close>

text \<open>The rows of a database: its four tables, without the sequences.\<close>

definition tables :: "db \<Rightarrow> User list \<times> AuthAccount list \<times> UserCharacter list \<times> CharacterCode list" where
  "tables s = (users s, accounts s, userCharacters s, characters s)"

text \<open>An empty database after the seed script has filled the character master table,
  and the same database without the seed.\<close>

definition db0 :: db where
  "db0 = \<lparr>users = [], accounts = [], userCharacters = [], characters = [TRAECHAN, MASTER],
          users_id_seq = 1, accounts_id_seq = 1, user_characters_id_seq = 1\<rparr>"

definition db_unseeded :: db where
  "db_unseeded = db0\<lparr>characters := []\<rparr>"

definition google0 :: GoogleUserInfo where
  "google0 = \<lparr>email_g = ''u@example.com'', id_g = ''abc123'', name_g = ''U'', picture_g = None\<rparr>"

definition user0 :: User where
  "user0 = \<lparr>id_u = 1, email_u = Some ''u@example.com'', name_u = Some ''U'', avatarUrl_u = None\<rparr>"

text \<open>\<open>db0\<close> after the registration of \<open>google0\<close> has committed.\<close>

definition db1 :: db where
  "db1 = \<lparr>users = [user0],
          accounts = [\<lparr>id_a = 1, userId_a = 1, provider_a = ''google'',
                       providerAccountId_a = ''abc123''\<rparr>],
          userCharacters = [\<lparr>id_c = 1, userId_c = 1, characterCode_c = TRAECHAN,
                             nickName_c = default_nickName, level_c = 1, experience_c = 0,
                             isActive_c = True\<rparr>],
          characters = [TRAECHAN, MASTER],
          users_id_seq = 2, accounts_id_seq = 2, user_characters_id_seq = 2\<rparr>"

text \<open>
  A small instance of the token library for the examples: the signature of a claims set
  is the key itself, three strings parse as tokens (\<open>fresh\<close> carries the signature made
  with the key \<open>s3cret\<close>, \<open>forged\<close> one made with another key), and two settings of
  \<^verbatim>\<open>expiresIn\<close> are understood.
\<close>

definition claims0 :: JWTPayload where
  "claims0 = \<lparr>userId_p = Some 1, iat_p = Some 100, exp_p = Some 160\<rparr>"

definition lib0 :: jsonwebtoken where
  "lib0 = \<lparr>encode = (\<lambda>c sg. if c = claims0 \<and> sg = ''s3cret'' then ''fresh'' else ''other''),
           decode = (\<lambda>t. if t = ''fresh'' then Some (claims0, ''s3cret'')
                         else if t = ''forged'' then Some (claims0, ''guess'')
                         else None),
           hmac = (\<lambda>k c. k),
           timespan = (\<lambda>x. if x = ''60s'' then Some 60
                           else if x = ''30d'' then Some 2592000 else None)\<rparr>"

definition m0 :: jwt_module where
  "m0 = \<lparr>JWT_SECRET = ''s3cret'', JWT_EXPIRATION = ''60s''\<rparr>"



text \<open>A Google client that answers two authorization codes with the profile \<open>google0\<close>.\<close>

definition getUserInfo0 :: "string \<Rightarrow> string + GoogleUserInfo" where
  "getUserInfo0 code =
     (if code = ''code1'' \<or> code = ''code2'' then Inr google0 else Inl ''invalid_grant'')"

text \<open>
  The repositories as a request sees them when it loses the race of two first logins:
  after its lookup and before its own transaction, the registration of a rival request,
  for the profile \<open>rival\<close>, commits.
\<close>

definition racing_repository :: "GoogleUserInfo \<Rightarrow> repository" where
  "racing_repository rival =
     \<lparr>findByProvider = findByProvider_prisma,
      createUserWithAuthAccountAndUserCharacterTx =
        (\<lambda>d s. createUserWithAuthAndCharacter d
                  (snd (createUserWithAuthAndCharacter (registration_input rival) s)))\<rparr>"

text \<open>The same Google account as \<open>google0\<close>, read while it still had an older address.\<close>

definition google_old :: GoogleUserInfo where
  "google_old = google0\<lparr>email_g := ''old@example.com''\<rparr>"

definition user_old :: User where
  "user_old = user0\<lparr>email_u := Some ''old@example.com''\<rparr>"

text \<open>\<open>db0\<close> after the rival's registration of \<open>google_old\<close> has committed and the
  registration of \<open>google0\<close> has then failed on its second insert.\<close>

definition db_lost_race :: db where
  "db_lost_race = db1\<lparr>users := [user_old], users_id_seq := 3, accounts_id_seq := 3\<rparr>"

text \<open>A claims set is expired at a time when it carries an expiry that is not after it.\<close>

definition expired :: "int \<Rightarrow> JWTPayload \<Rightarrow> bool" where
  "expired now c = (case exp_p c of None \<Rightarrow> False | Some e \<Rightarrow> e \<le> now)"

text \<open>A process environment with the Google settings and the signing secret, and
  without \<^verbatim>\<open>JWT_EXPIRATION\<close>; and the same without the callback URL.\<close>

definition env0 :: env where
  "env0 = [''GOOGLE_CLIENT_ID'' \<mapsto> ''client-id'', ''GOOGLE_CLIENT_SECRET'' \<mapsto> ''client-secret'',
           ''GOOGLE_CALLBACK_URL'' \<mapsto> ''http://localhost:8080/api/auth/google/callback'',
           ''JWT_SECRET'' \<mapsto> ''s3cret'']"

definition env_no_callback :: env where
  "env_no_callback = env0(''GOOGLE_CALLBACK_URL'' := None)"

definition no_file :: env where
  "no_file = (\<lambda>k. None)"




section \<open>Lemmas on the inserts\<close>

lemma user_create_Inr:
  assumes "user_create d s = (Inr u, s1)"
  shows "u = \<lparr>id_u = users_id_seq s, email_u = email_i d, name_u = name_i d,
               avatarUrl_u = avatarUrl_i d\<rparr>"
    and "s1 = s\<lparr>users_id_seq := users_id_seq s + 1, users := users s @ [u]\<rparr>"
    and "id_u u \<notin> set (map id_u (users s))"
  using assms by (auto simp: user_create_def Let_def split: if_splits)

lemma authAccount_create_Inr:
  assumes "authAccount_create d s = (Inr a, s1)"
  shows "a = \<lparr>id_a = accounts_id_seq s, userId_a = userId_ai d, provider_a = provider_i d,
               providerAccountId_a = providerAccountId_i d\<rparr>"
    and "s1 = s\<lparr>accounts_id_seq := accounts_id_seq s + 1, accounts := accounts s @ [a]\<rparr>"
    and "(provider_i d, providerAccountId_i d)
           \<notin> set (map (\<lambda>a. (provider_a a, providerAccountId_a a)) (accounts s))"
  using assms by (auto simp: authAccount_create_def Let_def split: if_splits)

lemma userCharacter_create_Inr:
  assumes "userCharacter_create d s = (Inr c, s1)"
  shows "c = \<lparr>id_c = user_characters_id_seq s, userId_c = userId_ci d,
               characterCode_c = characterCode_i d, nickName_c = nickName_i d, level_c = 1,
               experience_c = 0, isActive_c = isActive_i d\<rparr>"
    and "s1 = s\<lparr>user_characters_id_seq := user_characters_id_seq s + 1,
                 userCharacters := userCharacters s @ [c]\<rparr>"
  using assms by (auto simp: userCharacter_create_def Let_def split: if_splits)

text \<open>A committed registration, spelled out: the three rows it appended and what they hold.\<close>

lemma registration_body_Inr:
  assumes "registration_body d s = (Inr u, s')"
  shows "\<exists>a c. users s' = users s @ [u] \<and> accounts s' = accounts s @ [a]
           \<and> userCharacters s' = userCharacters s @ [c] \<and> characters s' = characters s
           \<and> id_u u \<notin> set (map id_u (users s))
           \<and> email_u u = email_i (user_r d) \<and> name_u u = name_i (user_r d)
           \<and> avatarUrl_u u = avatarUrl_i (user_r d)
           \<and> userId_a a = id_u u \<and> provider_a a = provider_r (authAccount_r d)
           \<and> providerAccountId_a a = providerAccountId_r (authAccount_r d)
           \<and> (provider_a a, providerAccountId_a a)
                \<notin> set (map (\<lambda>a. (provider_a a, providerAccountId_a a)) (accounts s))
           \<and> userId_c c = id_u u \<and> characterCode_c c = characterCode_r (userCharacter_r d)
           \<and> nickName_c c = nickName_r (userCharacter_r d)
           \<and> isActive_c c = (case isActive_r (userCharacter_r d) of None \<Rightarrow> False | Some b \<Rightarrow> b)"
proof -
  from assms obtain u1 s1 where u1: "user_create (user_r d) s = (Inr u1, s1)"
    by (auto simp: registration_body_def split: prod.splits sum.splits)
  from assms u1 obtain a s2 where
    a: "authAccount_create \<lparr>provider_i = provider_r (authAccount_r d),
          providerAccountId_i = providerAccountId_r (authAccount_r d), userId_ai = id_u u1\<rparr> s1
        = (Inr a, s2)"
    by (auto simp: registration_body_def split: prod.splits sum.splits)
  from assms u1 a obtain c where
    c: "userCharacter_create \<lparr>characterCode_i = characterCode_r (userCharacter_r d),
          isActive_i = (case isActive_r (userCharacter_r d) of None \<Rightarrow> False | Some b \<Rightarrow> b),
          nickName_i = nickName_r (userCharacter_r d), userId_ci = id_u u1\<rparr> s2 = (Inr c, s')"
    and uu: "u = u1"
    by (auto simp: registration_body_def split: prod.splits sum.splits)
  note U = user_create_Inr[OF u1] and A = authAccount_create_Inr[OF a]
    and C = userCharacter_create_Inr[OF c]
  have "users s' = users s @ [u]" "accounts s' = accounts s @ [a]"
    "userCharacters s' = userCharacters s @ [c]" "characters s' = characters s"
    using U(2) A(2) C(2) uu by simp_all
  moreover have "id_u u \<notin> set (map id_u (users s))" using U(3) uu by simp
  moreover have "email_u u = email_i (user_r d)" "name_u u = name_i (user_r d)"
    "avatarUrl_u u = avatarUrl_i (user_r d)" using U(1) uu by simp_all
  moreover have "userId_a a = id_u u" "provider_a a = provider_r (authAccount_r d)"
    "providerAccountId_a a = providerAccountId_r (authAccount_r d)" using A(1) uu by simp_all
  moreover have "(provider_a a, providerAccountId_a a)
       \<notin> set (map (\<lambda>a. (provider_a a, providerAccountId_a a)) (accounts s))"
    using A(1) A(3) U(2) by simp
  moreover have "userId_c c = id_u u" "characterCode_c c = characterCode_r (userCharacter_r d)"
    "nickName_c c = nickName_r (userCharacter_r d)"
    "isActive_c c = (case isActive_r (userCharacter_r d) of None \<Rightarrow> False | Some b \<Rightarrow> b)"
    using C(1) uu by simp_all
  ultimately show ?thesis by blast
qed

lemma transaction_Inl:
  "transaction body s = (Inl e, s') \<Longrightarrow> tables s' = tables s"
  by (auto simp: transaction_def rollback_def tables_def split: prod.splits sum.splits)

lemma transaction_Inr:
  "transaction body s = (Inr v, s') \<Longrightarrow> body s = (Inr v, s')"
  by (auto simp: transaction_def split: prod.splits sum.splits)

section \<open>The registration is atomic\<close>

text \<open>
  Claim C2. \<open>createUserWithAuthAndCharacter\<close> runs its three inserts as one unit. When it
  fails, whichever insert failed and for whatever reason, no row of any table has been
  added, changed or removed: the tables are the ones it started from. When it succeeds,
  exactly the three rows have been appended, the returned user, an account and a
  character that both point to that user.
\<close>

theorem createUserWithAuthAndCharacter_atomic:
  "(createUserWithAuthAndCharacter d s = (Inl e, s') \<longrightarrow> tables s' = tables s) \<and>
   (createUserWithAuthAndCharacter d s = (Inr u, s') \<longrightarrow>
      (\<exists>a c. users s' = users s @ [u] \<and> accounts s' = accounts s @ [a] \<and>
             userCharacters s' = userCharacters s @ [c] \<and> characters s' = characters s \<and>
             userId_a a = id_u u \<and> userId_c c = id_u u))"
proof (intro conjI impI)
  assume "createUserWithAuthAndCharacter d s = (Inl e, s')"
  then show "tables s' = tables s"
    unfolding createUserWithAuthAndCharacter_def by (rule transaction_Inl)
next
  assume "createUserWithAuthAndCharacter d s = (Inr u, s')"
  then have "registration_body d s = (Inr u, s')"
    unfolding createUserWithAuthAndCharacter_def by (rule transaction_Inr)
  from registration_body_Inr[OF this] show
    "\<exists>a c. users s' = users s @ [u] \<and> accounts s' = accounts s @ [a] \<and>
           userCharacters s' = userCharacters s @ [c] \<and> characters s' = characters s \<and>
           userId_a a = id_u u \<and> userId_c c = id_u u"
    by blast
qed

theorem createUserWithAuthAndCharacter_atomic_witness:
  "createUserWithAuthAndCharacter (registration_input google0) db_unseeded
     = (Inl (ForeignKeyConstraint ''user_characters_character_code_fkey''),
        db_unseeded\<lparr>users_id_seq := 2, accounts_id_seq := 2, user_characters_id_seq := 2\<rparr>)
   \<and> tables (db_unseeded\<lparr>users_id_seq := 2, accounts_id_seq := 2, user_characters_id_seq := 2\<rparr>)
       = tables db_unseeded
   \<and> createUserWithAuthAndCharacter (registration_input google0) db0 = (Inr user0, db1)
   \<and> (\<exists>a c. users db1 = users db0 @ [user0] \<and> accounts db1 = accounts db0 @ [a] \<and>
             userCharacters db1 = userCharacters db0 @ [c] \<and> characters db1 = characters db0 \<and>
             userId_a a = id_u user0 \<and> userId_c c = id_u user0)"
proof -
  have fails: "createUserWithAuthAndCharacter (registration_input google0) db_unseeded
     = (Inl (ForeignKeyConstraint ''user_characters_character_code_fkey''),
        db_unseeded\<lparr>users_id_seq := 2, accounts_id_seq := 2, user_characters_id_seq := 2\<rparr>)"
    by (simp add: createUserWithAuthAndCharacter_def transaction_def registration_body_def
        user_create_def authAccount_create_def userCharacter_create_def rollback_def
        registration_input_def google0_def db_unseeded_def db0_def Let_def)
  have commits: "createUserWithAuthAndCharacter (registration_input google0) db0 = (Inr user0, db1)"
    by (simp add: createUserWithAuthAndCharacter_def transaction_def registration_body_def
        user_create_def authAccount_create_def userCharacter_create_def
        registration_input_def google0_def db0_def db1_def user0_def Let_def)
  from fails commits
    createUserWithAuthAndCharacter_atomic[of "registration_input google0" db_unseeded
      "ForeignKeyConstraint ''user_characters_character_code_fkey''"
      "db_unseeded\<lparr>users_id_seq := 2, accounts_id_seq := 2, user_characters_id_seq := 2\<rparr>"]
    createUserWithAuthAndCharacter_atomic[of "registration_input google0" db0 _ db1 user0]
  show ?thesis by blast
qed

section \<open>Looking an identity up after its registration\<close>



section \<open>The authentication service\<close>


lemma issue_result_Inr:
  "issue_result lib m now b u = Inr r \<Longrightarrow>
     isNewUser r = b \<and> user_res r = u \<and> generateToken lib m now (id_u u) = Inr (jwtToken r)"
  by (auto simp: issue_result_def split: sum.splits)

text \<open>What a successful call went through: either the lookup found the account, or the
  registration committed.\<close>

lemma authenticateWithGoogle_Inr:
  assumes "authenticateWithGoogle lib m now code repo getUserInfo s = (Inr r, s')"
  shows "\<exists>g. getUserInfo code = Inr g \<and>
           generateToken lib m now (id_u (user_res r)) = Inr (jwtToken r) \<and>
           ((\<exists>acc. findByProvider repo ''google'' (id_g g) s = Some acc \<and> \<not> isNewUser r \<and>
                   user_res r = user acc \<and> s' = s) \<or>
            (findByProvider repo ''google'' (id_g g) s = None \<and> isNewUser r \<and>
             createUserWithAuthAccountAndUserCharacterTx repo (registration_input g) s
               = (Inr (user_res r), s')))"
  using assms
  by (auto simp: authenticateWithGoogle_def split: sum.splits option.splits prod.splits
      dest!: issue_result_Inr)

text \<open>
  Claim C1, as the code has it. When the lookup finds no account and the registration
  fails, the service returns that failure as it was thrown, whatever constraint was
  violated, together with the database the failed registration left. It issues no
  token and does not look the account up again.
\<close>

theorem authenticateWithGoogle_registration_error:
  assumes "getUserInfo code = Inr g"
    and "findByProvider repo ''google'' (id_g g) s = None"
    and "createUserWithAuthAccountAndUserCharacterTx repo (registration_input g) s = (Inl e, s')"
  shows "authenticateWithGoogle lib m now code repo getUserInfo s = (Inl (PrismaError e), s')"
  using assms by (simp add: authenticateWithGoogle_def)

lemma lost_race_registration:
  "createUserWithAuthAccountAndUserCharacterTx (racing_repository google_old)
       (registration_input google0) db0
     = (Inl (UniqueConstraint ''accounts_provider_provider_account_id_key''), db_lost_race)"
  by (simp add: racing_repository_def createUserWithAuthAndCharacter_def transaction_def
      registration_body_def user_create_def authAccount_create_def userCharacter_create_def
      rollback_def registration_input_def google0_def google_old_def db0_def db1_def
      db_lost_race_def user0_def user_old_def Let_def)

theorem authenticateWithGoogle_registration_error_witness:
  "getUserInfo0 ''code1'' = Inr google0
   \<and> findByProvider (racing_repository google_old) ''google'' (id_g google0) db0 = None
   \<and> createUserWithAuthAccountAndUserCharacterTx (racing_repository google_old)
         (registration_input google0) db0
       = (Inl (UniqueConstraint ''accounts_provider_provider_account_id_key''), db_lost_race)
   \<and> authenticateWithGoogle lib0 m0 100 ''code1'' (racing_repository google_old) getUserInfo0 db0
       = (Inl (PrismaError (UniqueConstraint ''accounts_provider_provider_account_id_key'')),
          db_lost_race)"
proof -
  have g: "getUserInfo0 ''code1'' = Inr google0"
    by (simp add: getUserInfo0_def)
  have f: "findByProvider (racing_repository google_old) ''google'' (id_g google0) db0 = None"
    by (simp add: racing_repository_def findByProvider_prisma_def db0_def)
  from g f lost_race_registration
    authenticateWithGoogle_registration_error[where getUserInfo = getUserInfo0
      and code = "''code1''" and g = google0 and repo = "racing_repository google_old"
      and s = db0 and e = "UniqueConstraint ''accounts_provider_provider_account_id_key''"
      and s' = db_lost_race and lib = lib0 and m = m0 and now = 100]
  show ?thesis by simp
qed

text \<open>
  Claim C1 as stated fails. Two first logins for the Google account \<open>abc123\<close> race; the
  rival commits between this request's lookup and its transaction. The request does not
  recover: it ends with the constraint violation, although the account is in the
  database by then and a second lookup would find it, with the rival's user 1. This holds
  when the violated constraint is the one on (provider, provider account id), and also
  when the rival read the same address and the unique index on the e-mail trips first.
\<close>

theorem authenticateWithGoogle_race_counterexample:
  "fst (authenticateWithGoogle lib0 m0 100 ''code1'' (racing_repository google_old)
          getUserInfo0 db0)
     = Inl (PrismaError (UniqueConstraint ''accounts_provider_provider_account_id_key''))
   \<and> findByProvider_prisma ''google'' ''abc123''
        (snd (authenticateWithGoogle lib0 m0 100 ''code1'' (racing_repository google_old)
                getUserInfo0 db0))
       = Some \<lparr>account = \<lparr>id_a = 1, userId_a = 1, provider_a = ''google'',
                            providerAccountId_a = ''abc123''\<rparr>,
               user = user_old\<rparr>
   \<and> fst (authenticateWithGoogle lib0 m0 100 ''code1'' (racing_repository google0)
            getUserInfo0 db0)
       = Inl (PrismaError (UniqueConstraint ''users_email_key''))"
proof -
  have g: "getUserInfo0 ''code1'' = Inr google0"
    by (simp add: getUserInfo0_def)
  have f: "findByProvider (racing_repository r) ''google'' (id_g google0) db0 = None" for r
    by (simp add: racing_repository_def findByProvider_prisma_def db0_def)
  have a: "authenticateWithGoogle lib0 m0 100 ''code1'' (racing_repository google_old)
             getUserInfo0 db0
           = (Inl (PrismaError (UniqueConstraint ''accounts_provider_provider_account_id_key'')),
              db_lost_race)"
    using g f lost_race_registration by (simp add: authenticateWithGoogle_def)
  have b: "findByProvider_prisma ''google'' ''abc123'' db_lost_race
           = Some \<lparr>account = \<lparr>id_a = 1, userId_a = 1, provider_a = ''google'',
                                providerAccountId_a = ''abc123''\<rparr>,
                   user = user_old\<rparr>"
    by (simp add: findByProvider_prisma_def db_lost_race_def db1_def user_old_def user0_def)
  have c: "fst (createUserWithAuthAccountAndUserCharacterTx (racing_repository google0)
                  (registration_input google0) db0)
           = Inl (UniqueConstraint ''users_email_key'')"
    by (simp add: racing_repository_def createUserWithAuthAndCharacter_def transaction_def
        registration_body_def user_create_def authAccount_create_def userCharacter_create_def
        rollback_def registration_input_def google0_def db0_def Let_def)
  have d: "fst (authenticateWithGoogle lib0 m0 100 ''code1'' (racing_repository google0)
                  getUserInfo0 db0)
           = Inl (PrismaError (UniqueConstraint ''users_email_key''))"
    using g f c by (auto simp: authenticateWithGoogle_def split: prod.splits sum.splits)
  show ?thesis using a b d by simp
qed


lemma first_login0:
  "authenticateWithGoogle lib0 m0 100 ''code1'' prisma_repository getUserInfo0 db0
     = (Inr \<lparr>isNewUser = True, jwtToken = ''fresh'', user_res = user0\<rparr>, db1)"
  by (simp add: authenticateWithGoogle_def prisma_repository_def getUserInfo0_def
      findByProvider_prisma_def issue_result_def generateToken_def jwt_sign_def lib0_def m0_def
      claims0_def createUserWithAuthAndCharacter_def transaction_def registration_body_def
      user_create_def authAccount_create_def userCharacter_create_def
      registration_input_def google0_def db0_def db1_def user0_def Let_def)


text \<open>
  Claim C10. Every user that the new-user path creates takes e-mail address, name and
  avatar from the Google profile, and afterwards owns exactly one character: TRAECHAN,
  active, with the default nickname. The database is assumed to satisfy the foreign key
  of \<^verbatim>\<open>user_characters\<close> beforehand (every character row belongs to a user row), as
  the storage engine enforces.
\<close>

theorem authenticateWithGoogle_new_user:
  assumes "getUserInfo code = Inr g"
    and "authenticateWithGoogle lib m now code prisma_repository getUserInfo s = (Inr r, s')"
    and "isNewUser r"
    and "\<forall>c \<in> set (userCharacters s). userId_c c \<in> set (map id_u (users s))"
  shows "email_u (user_res r) = Some (email_g g) \<and> name_u (user_res r) = Some (name_g g)
         \<and> avatarUrl_u (user_res r) = picture_g g
         \<and> users s' = users s @ [user_res r]
         \<and> (\<exists>c. filter (\<lambda>c. userId_c c = id_u (user_res r)) (userCharacters s') = [c]
                \<and> characterCode_c c = TRAECHAN \<and> isActive_c c \<and> nickName_c c = default_nickName)"
proof -
  from authenticateWithGoogle_Inr[OF assms(2)] assms(1,3)
  have "createUserWithAuthAndCharacter (registration_input g) s = (Inr (user_res r), s')"
    by (auto simp: prisma_repository_def)
  then have "registration_body (registration_input g) s = (Inr (user_res r), s')"
    unfolding createUserWithAuthAndCharacter_def by (rule transaction_Inr)
  from registration_body_Inr[OF this] obtain c where
    us: "users s' = users s @ [user_res r]" and
    cs: "userCharacters s' = userCharacters s @ [c]" and
    fresh: "id_u (user_res r) \<notin> set (map id_u (users s))" and
    prof: "email_u (user_res r) = Some (email_g g)" "name_u (user_res r) = Some (name_g g)"
      "avatarUrl_u (user_res r) = picture_g g" and
    ch: "userId_c c = id_u (user_res r)" "characterCode_c c = TRAECHAN"
      "nickName_c c = default_nickName" "isActive_c c"
    by (auto simp: registration_input_def)
  have "userId_c x \<noteq> id_u (user_res r)" if "x \<in> set (userCharacters s)" for x
    using assms(4) fresh that by metis
  then have "filter (\<lambda>c. userId_c c = id_u (user_res r)) (userCharacters s) = []"
    by (simp add: filter_empty_conv)
  then have "filter (\<lambda>c. userId_c c = id_u (user_res r)) (userCharacters s') = [c]"
    using cs ch(1) by simp
  with us prof ch show ?thesis by simp
qed

theorem authenticateWithGoogle_new_user_witness:
  "getUserInfo0 ''code1'' = Inr google0
   \<and> authenticateWithGoogle lib0 m0 100 ''code1'' prisma_repository getUserInfo0 db0
       = (Inr \<lparr>isNewUser = True, jwtToken = ''fresh'', user_res = user0\<rparr>, db1)
   \<and> email_u user0 = Some (email_g google0) \<and> name_u user0 = Some (name_g google0)
   \<and> avatarUrl_u user0 = picture_g google0
   \<and> users db1 = users db0 @ [user0]
   \<and> (\<exists>c. filter (\<lambda>c. userId_c c = id_u user0) (userCharacters db1) = [c]
          \<and> characterCode_c c = TRAECHAN \<and> isActive_c c \<and> nickName_c c = default_nickName)"
proof -
  have g1: "getUserInfo0 ''code1'' = Inr google0"
    by (simp add: getUserInfo0_def)
  have fk: "\<forall>c \<in> set (userCharacters db0). userId_c c \<in> set (map id_u (users db0))"
    by (simp add: db0_def)
  from authenticateWithGoogle_new_user[where getUserInfo = getUserInfo0 and code = "''code1''"
      and g = google0 and s = db0 and lib = lib0 and m = m0 and now = 100 and s' = db1
      and r = "\<lparr>isNewUser = True, jwtToken = ''fresh'', user_res = user0\<rparr>",
      OF g1 first_login0 _ fk]
  show ?thesis using g1 first_login0 by simp
qed

section \<open>Session tokens\<close>

lemma verifyToken_Some_iff:
  "(verifyToken lib m now t = Some p) =
     (\<exists>sg. decode lib t = Some (p, sg) \<and> sg = hmac lib (JWT_SECRET m) p \<and> \<not> expired now p)"
  by (auto simp: verifyToken_def jwt_verify_def expired_def
      split: option.splits sum.splits prod.splits if_splits)

text \<open>
  Claim C3. A token issued for a user id at time \<open>now\<close> verifies at every time before
  its expiry \<open>now + ttl\<close>, in particular at \<open>now\<close> itself when the configured lifetime is
  positive, and verification gives back the same user id. The configured
  \<^verbatim>\<open>JWT_EXPIRATION\<close> is one that the library reads as \<open>ttl\<close> seconds, and the library
  parses the token it has just serialised.
\<close>

theorem token_round_trip:
  assumes "timespan lib (JWT_EXPIRATION m) = Some ttl"
    and "c = \<lparr>userId_p = Some uid, iat_p = Some now, exp_p = Some (now + ttl)\<rparr>"
    and "decode lib (encode lib c (hmac lib (JWT_SECRET m) c)) = Some (c, hmac lib (JWT_SECRET m) c)"
    and "now' < now + ttl"
  shows "\<exists>t p. generateToken lib m now uid = Inr t \<and> verifyToken lib m now' t = Some p
               \<and> userId_p p = Some uid"
proof -
  let ?t = "encode lib c (hmac lib (JWT_SECRET m) c)"
  have issue: "generateToken lib m now uid = Inr ?t"
    using assms(1,2) by (simp add: generateToken_def jwt_sign_def Let_def)
  have "\<not> expired now' c"
    using assms(2,4) by (simp add: expired_def)
  then have "verifyToken lib m now' ?t = Some c"
    using assms(3) by (simp add: verifyToken_Some_iff)
  moreover have "userId_p c = Some uid"
    using assms(2) by simp
  ultimately show ?thesis using issue by blast
qed

theorem token_round_trip_witness:
  "timespan lib0 (JWT_EXPIRATION m0) = Some 60
   \<and> decode lib0 (encode lib0 claims0 (hmac lib0 (JWT_SECRET m0) claims0))
       = Some (claims0, hmac lib0 (JWT_SECRET m0) claims0)
   \<and> generateToken lib0 m0 100 1 = Inr ''fresh''
   \<and> (\<exists>t p. generateToken lib0 m0 100 1 = Inr t \<and> verifyToken lib0 m0 100 t = Some p
            \<and> userId_p p = Some 1)"
proof -
  have a: "timespan lib0 (JWT_EXPIRATION m0) = Some 60"
    by (simp add: lib0_def m0_def)
  have b: "claims0 = \<lparr>userId_p = Some 1, iat_p = Some 100, exp_p = Some (100 + 60)\<rparr>"
    by (simp add: claims0_def)
  have c: "decode lib0 (encode lib0 claims0 (hmac lib0 (JWT_SECRET m0) claims0))
             = Some (claims0, hmac lib0 (JWT_SECRET m0) claims0)"
    by (simp add: lib0_def m0_def)
  have d: "generateToken lib0 m0 100 1 = Inr ''fresh''"
    by (simp add: generateToken_def jwt_sign_def lib0_def m0_def claims0_def Let_def)
  have e: "(100::int) < 100 + 60" by simp
  from token_round_trip[OF a b c e] a c d show ?thesis by simp
qed

text \<open>
  Claim C4, as the code has it. Inside the library a verification fails in two kinds:
  \<open>TokenExpiredError\<close> exactly for a token whose signature is valid and whose expiry has
  passed, \<open>JsonWebTokenError\<close> exactly for a string that does not parse or whose
  signature is not the one the secret gives. \<open>verifyToken\<close> catches both and returns
  null for either: two failed verifications have the same result, of whatever kinds
  they are.
\<close>

theorem verifyToken_failures_indistinguishable:
  "((jwt_verify lib t k now = Inl TokenExpiredError) =
      (\<exists>c e. decode lib t = Some (c, hmac lib k c) \<and> exp_p c = Some e \<and> e \<le> now))
   \<and> ((\<exists>msg. jwt_verify lib t k now = Inl (JsonWebTokenError msg)) =
      (decode lib t = None \<or> (\<exists>c sg. decode lib t = Some (c, sg) \<and> sg \<noteq> hmac lib k c)))
   \<and> (jwt_verify lib t1 (JWT_SECRET m) now1 = Inl e1 \<and> jwt_verify lib t2 (JWT_SECRET m) now2 = Inl e2
        \<longrightarrow> verifyToken lib m now1 t1 = None \<and> verifyToken lib m now2 t2 = None)"
  by (auto simp: verifyToken_def jwt_verify_def split: option.splits prod.splits if_splits)

lemma verify_fresh_late: "jwt_verify lib0 ''fresh'' (JWT_SECRET m0) 200 = Inl TokenExpiredError"
  by (simp add: jwt_verify_def lib0_def m0_def claims0_def)

lemma verify_forged: "jwt_verify lib0 ''forged'' (JWT_SECRET m0) 200
                        = Inl (JsonWebTokenError ''invalid signature'')"
  by (simp add: jwt_verify_def lib0_def m0_def claims0_def)

theorem verifyToken_failures_indistinguishable_witness:
  "jwt_verify lib0 ''fresh'' (JWT_SECRET m0) 200 = Inl TokenExpiredError
   \<and> jwt_verify lib0 ''forged'' (JWT_SECRET m0) 200 = Inl (JsonWebTokenError ''invalid signature'')
   \<and> verifyToken lib0 m0 200 ''fresh'' = None \<and> verifyToken lib0 m0 200 ''forged'' = None"
  using verifyToken_failures_indistinguishable[of lib0 "''fresh''" "JWT_SECRET m0" 200
      "''fresh''" m0 200 TokenExpiredError "''forged''" 200
      "JsonWebTokenError ''invalid signature''"]
    verify_fresh_late verify_forged
  by simp

text \<open>
  Claim C4 as stated fails: an expired token with a valid signature and a token with a
  forged signature fail in different kinds inside the library, and the caller of
  \<open>verifyToken\<close> gets the same result for both.
\<close>

theorem verifyToken_kinds_counterexample:
  "jwt_verify lib0 ''fresh'' (JWT_SECRET m0) 200 = Inl TokenExpiredError
   \<and> jwt_verify lib0 ''forged'' (JWT_SECRET m0) 200 = Inl (JsonWebTokenError ''invalid signature'')
   \<and> verifyToken lib0 m0 200 ''fresh'' = verifyToken lib0 m0 200 ''forged''"
  by (simp add: verifyToken_def jwt_verify_def lib0_def m0_def claims0_def)

text \<open>
  Claim C9. For every string, \<open>verifyToken\<close> returns the payload that the library's
  verification returned, or null when that verification threw, whatever it threw.
\<close>

theorem verifyToken_total:
  "(\<exists>p. jwt_verify lib t (JWT_SECRET m) now = Inr p \<and> verifyToken lib m now t = Some p)
   \<or> (\<exists>e. jwt_verify lib t (JWT_SECRET m) now = Inl e \<and> verifyToken lib m now t = None)"
  by (cases "jwt_verify lib t (JWT_SECRET m) now") (simp_all add: verifyToken_def)

section \<open>The session guard\<close>






lemma verify_fresh_early: "verifyToken lib0 m0 130 ''fresh'' = Some claims0"
  by (simp add: verifyToken_def jwt_verify_def lib0_def m0_def claims0_def)





section \<open>Start-up\<close>

lemma falsy_dotenv: "falsy (dotenv_config file penv k) \<Longrightarrow> falsy (penv k)"
  by (cases "penv k") (simp_all add: dotenv_config_def falsy_def)

lemma truthy_dotenv: "\<not> falsy (penv k) \<Longrightarrow> \<not> falsy (dotenv_config file penv k)"
  by (cases "penv k") (simp_all add: dotenv_config_def falsy_def)

text \<open>
  Claim C7, as the code has it. The Google client id, the Google client secret, the
  callback URL and the signing secret are required: the process fails at start-up
  exactly when one of them is unset or empty (the three Google settings after
  \<^verbatim>\<open>.env.local\<close> has been read, the signing secret in the process environment
  itself, where the token module reads it), so a setting that is absent everywhere is
  always fatal. The token lifetime is not required: when the process starts, it is the
  value of \<^verbatim>\<open>JWT_EXPIRATION\<close> in the process environment or, without one, 30 days.
\<close>

theorem index_main_required:
  "((\<exists>msg. index_main file penv = Inl msg) =
      (falsy (penv ''JWT_SECRET'')
       \<or> falsy (dotenv_config file penv ''GOOGLE_CLIENT_ID'')
       \<or> falsy (dotenv_config file penv ''GOOGLE_CLIENT_SECRET'')
       \<or> falsy (dotenv_config file penv ''GOOGLE_CALLBACK_URL'')))
   \<and> (falsy (dotenv_config file penv ''JWT_SECRET'') \<longrightarrow> falsy (penv ''JWT_SECRET''))
   \<and> (index_main file penv = Inr cfg \<longrightarrow>
        JWT_EXPIRATION (jwt cfg) = or_default (penv ''JWT_EXPIRATION'') ''30d'')"
proof (intro conjI impI)
  show "(\<exists>msg. index_main file penv = Inl msg) =
      (falsy (penv ''JWT_SECRET'')
       \<or> falsy (dotenv_config file penv ''GOOGLE_CLIENT_ID'')
       \<or> falsy (dotenv_config file penv ''GOOGLE_CLIENT_SECRET'')
       \<or> falsy (dotenv_config file penv ''GOOGLE_CALLBACK_URL''))"
    using truthy_dotenv[of penv "''JWT_SECRET''" "file"]
    by (auto simp: index_main_def jwt_module_load_def Let_def)
next
  assume "falsy (dotenv_config file penv ''JWT_SECRET'')"
  then show "falsy (penv ''JWT_SECRET'')" by (rule falsy_dotenv)
next
  assume "index_main file penv = Inr cfg"
  then show "JWT_EXPIRATION (jwt cfg) = or_default (penv ''JWT_EXPIRATION'') ''30d''"
    by (auto simp: index_main_def jwt_module_load_def Let_def split: if_splits)
qed

lemma index_main_env0:
  "index_main no_file env0 =
     Inr \<lparr>PORT = ''8080'', FRONTEND_URL = ''http://localhost:3000'',
          GOOGLE_CLIENT_ID = ''client-id'', GOOGLE_CLIENT_SECRET = ''client-secret'',
          GOOGLE_CALLBACK_URL = ''http://localhost:8080/api/auth/google/callback'',
          jwt = \<lparr>JWT_SECRET = ''s3cret'', JWT_EXPIRATION = ''30d''\<rparr>\<rparr>"
  by (simp add: index_main_def jwt_module_load_def dotenv_config_def falsy_def or_default_def
      env0_def no_file_def Let_def)

theorem index_main_required_witness:
  "falsy (dotenv_config no_file env_no_callback ''GOOGLE_CALLBACK_URL'')
   \<and> (\<exists>msg. index_main no_file env_no_callback = Inl msg)
   \<and> index_main no_file env0 =
       Inr \<lparr>PORT = ''8080'', FRONTEND_URL = ''http://localhost:3000'',
            GOOGLE_CLIENT_ID = ''client-id'', GOOGLE_CLIENT_SECRET = ''client-secret'',
            GOOGLE_CALLBACK_URL = ''http://localhost:8080/api/auth/google/callback'',
            jwt = \<lparr>JWT_SECRET = ''s3cret'', JWT_EXPIRATION = ''30d''\<rparr>\<rparr>
   \<and> or_default (env0 ''JWT_EXPIRATION'') ''30d'' = ''30d''"
proof -
  have a: "falsy (dotenv_config no_file env_no_callback ''GOOGLE_CALLBACK_URL'')"
    by (simp add: dotenv_config_def falsy_def env_no_callback_def no_file_def)
  from a index_main_env0
    index_main_required[of no_file env_no_callback]
    index_main_required[of no_file env0
      "\<lparr>PORT = ''8080'', FRONTEND_URL = ''http://localhost:3000'',
        GOOGLE_CLIENT_ID = ''client-id'', GOOGLE_CLIENT_SECRET = ''client-secret'',
        GOOGLE_CALLBACK_URL = ''http://localhost:8080/api/auth/google/callback'',
        jwt = \<lparr>JWT_SECRET = ''s3cret'', JWT_EXPIRATION = ''30d''\<rparr>\<rparr>"]
  show ?thesis by simp
qed

text \<open>
  Claim C7 as stated fails: with the three Google settings and the signing secret set
  and no \<^verbatim>\<open>JWT_EXPIRATION\<close> anywhere, the process starts, with a token lifetime of
  30 days.
\<close>

theorem index_main_ttl_counterexample:
  "env0 ''JWT_EXPIRATION'' = None \<and> no_file ''JWT_EXPIRATION'' = None
   \<and> index_main no_file env0 =
       Inr \<lparr>PORT = ''8080'', FRONTEND_URL = ''http://localhost:3000'',
            GOOGLE_CLIENT_ID = ''client-id'', GOOGLE_CLIENT_SECRET = ''client-secret'',
            GOOGLE_CALLBACK_URL = ''http://localhost:8080/api/auth/google/callback'',
            jwt = \<lparr>JWT_SECRET = ''s3cret'', JWT_EXPIRATION = ''30d''\<rparr>\<rparr>"
  by (simp add: index_main_def jwt_module_load_def dotenv_config_def falsy_def or_default_def
      env0_def no_file_def Let_def)

end
